theory Spec2Isabelle
  imports Complex_Main "HOL-Library.Word" "HOL-Library.Sublist"
begin

unbundle bit_operations_syntax

section \<open>The runtime the asset generator stands on\<close>

text \<open>
  The module \<^verbatim>\<open>packages/astro/src/assets/build/generate.ts\<close> prepares the
  environment of the image build, loads each source image once and runs one job for each
  requested transform. A job looks for a cache entry, and when there is none it calls the
  image service, writes the cache entry (best effort) and writes the final file.

  The module calls the file system, \<^verbatim>\<open>JSON\<close> and \<^verbatim>\<open>Buffer\<close> of the
  runtime. This section models what it uses of them.
\<close>

subsection \<open>Buffers and text\<close>

text \<open>
  A \<^verbatim>\<open>Buffer\<close> is a list of bytes. Text is kept in its UTF-8 form, one
  \<^typ>\<open>char\<close> for each byte, so that writing text to a file and reading it back as
  \<^verbatim>\<open>'utf-8'\<close> only change the type of the elements.
\<close>

type_synonym byte = "8 word"
type_synonym buffer = "byte list"

definition utf8_encode :: "string \<Rightarrow> buffer" where
  "utf8_encode s = map (\<lambda>c. of_nat (of_char c)) s"

definition utf8_decode :: "buffer \<Rightarrow> string" where
  "utf8_decode b = map (\<lambda>x. char_of (unat x)) b"

subsection \<open>Base64\<close>

text \<open>
  \<^verbatim>\<open>buf.toString('base64')\<close>: three bytes become four characters of the
  alphabet \<^verbatim>\<open>A-Z a-z 0-9 + /\<close>, and the last group is padded with \<^verbatim>\<open>=\<close>.
\<close>

definition b64_char :: "byte \<Rightarrow> char" where
  "b64_char x =
     (let n = unat (x AND 63) in
      if n < 26 then char_of (65 + n)
      else if n < 52 then char_of (71 + n)
      else if n < 62 then char_of (n - 4)
      else if n = 62 then CHR ''+'' else CHR ''/'')"

fun base64_encode :: "buffer \<Rightarrow> string" where
  "base64_encode (a # b # c # rest) =
     [b64_char (drop_bit 2 a),
      b64_char (push_bit 4 (a AND 3) OR drop_bit 4 b),
      b64_char (push_bit 2 (b AND 15) OR drop_bit 6 c),
      b64_char (c AND 63)] @ base64_encode rest"
| "base64_encode [a, b] =
     [b64_char (drop_bit 2 a),
      b64_char (push_bit 4 (a AND 3) OR drop_bit 4 b),
      b64_char (push_bit 2 (b AND 15)),
      CHR ''='']"
| "base64_encode [a] =
     [b64_char (drop_bit 2 a), b64_char (push_bit 4 (a AND 3)), CHR ''='', CHR ''='']"
| "base64_encode [] = []"

text \<open>
  \<^verbatim>\<open>Buffer.from(s, 'base64')\<close> never throws on a string. Characters outside the
  alphabet (white space and the padding among them) are passed over, the URL-safe
  \<^verbatim>\<open>-\<close> and \<^verbatim>\<open>_\<close> are accepted, and a last group of two or three
  characters gives one or two bytes.
\<close>

definition b64_value :: "char \<Rightarrow> byte option" where
  "b64_value c =
     (let n = (of_char c :: nat) in
      if 65 \<le> n \<and> n \<le> 90 then Some (of_nat (n - 65))
      else if 97 \<le> n \<and> n \<le> 122 then Some (of_nat (n - 71))
      else if 48 \<le> n \<and> n \<le> 57 then Some (of_nat (n + 4))
      else if c = CHR ''+'' \<or> c = CHR ''-'' then Some 62
      else if c = CHR ''/'' \<or> c = CHR ''_'' then Some 63
      else None)"

fun b64_groups :: "byte list \<Rightarrow> buffer" where
  "b64_groups (p # q # r # s # rest) =
     [push_bit 2 p OR drop_bit 4 q, push_bit 4 q OR drop_bit 2 r, push_bit 6 r OR s]
       @ b64_groups rest"
| "b64_groups [p, q, r] = [push_bit 2 p OR drop_bit 4 q, push_bit 4 q OR drop_bit 2 r]"
| "b64_groups [p, q] = [push_bit 2 p OR drop_bit 4 q]"
| "b64_groups [p] = []"
| "b64_groups [] = []"

definition base64_decode :: "string \<Rightarrow> buffer" where
  "base64_decode s = b64_groups (List.map_filter b64_value s)"

subsection \<open>JSON\<close>

text \<open>
  The values \<^verbatim>\<open>JSON.parse\<close> returns. Numbers are kept exact, as rationals (the
  runtime rounds them to doubles). A string holds UTF-8 text.
\<close>

datatype json =
    JNull
  | JBool bool
  | JNum rat
  | JStr string
  | JArr "json list"
  | JObj "(string \<times> json) list"

datatype token =
    TLBrace | TRBrace | TLBracket | TRBracket | TColon | TComma
  | TString string | TNumber rat | TTrue | TFalse | TNull

definition is_digit :: "char \<Rightarrow> bool" where
  "is_digit c \<longleftrightarrow> 48 \<le> (of_char c :: nat) \<and> (of_char c :: nat) \<le> 57"

definition digit_value :: "char \<Rightarrow> nat" where
  "digit_value c = of_char c - 48"

definition digits_value :: "string \<Rightarrow> nat" where
  "digits_value ds = foldl (\<lambda>acc c. 10 * acc + digit_value c) 0 ds"

definition hex_value :: "char \<Rightarrow> nat option" where
  "hex_value c =
     (let n = (of_char c :: nat) in
      if 48 \<le> n \<and> n \<le> 57 then Some (n - 48)
      else if 65 \<le> n \<and> n \<le> 70 then Some (n - 55)
      else if 97 \<le> n \<and> n \<le> 102 then Some (n - 87)
      else None)"

definition hex4 :: "char \<Rightarrow> char \<Rightarrow> char \<Rightarrow> char \<Rightarrow> nat option" where
  "hex4 a b c d =
     (case (hex_value a, hex_value b, hex_value c, hex_value d) of
        (Some p, Some q, Some r, Some s) \<Rightarrow> Some (((p * 16 + q) * 16 + r) * 16 + s)
      | _ \<Rightarrow> None)"

text \<open>The UTF-8 form of the code unit of a \<^verbatim>\<open>\uXXXX\<close> escape.\<close>

definition utf8_of_unit :: "nat \<Rightarrow> string" where
  "utf8_of_unit n =
     (if n < 128 then [char_of n]
      else if n < 2048 then [char_of (192 + n div 64), char_of (128 + n mod 64)]
      else [char_of (224 + n div 4096), char_of (128 + (n div 64) mod 64),
            char_of (128 + n mod 64)])"

definition escape_char :: "char \<Rightarrow> char option" where
  "escape_char e =
     (if e = CHR 0x22 then Some (CHR 0x22)
      else if e = CHR 0x5C then Some (CHR 0x5C)
      else if e = CHR ''/'' then Some (CHR ''/'')
      else if e = CHR ''b'' then Some (CHR 0x08)
      else if e = CHR ''f'' then Some (CHR 0x0C)
      else if e = CHR ''n'' then Some (CHR 0x0A)
      else if e = CHR ''r'' then Some (CHR 0x0D)
      else if e = CHR ''t'' then Some (CHR 0x09)
      else None)"

text \<open>
  The body of a string after its opening quote, up to the closing quote: the string and
  the text after it.
\<close>

fun lex_string :: "string \<Rightarrow> (string \<times> string) option" where
  "lex_string [] = None"
| "lex_string (c # cs) =
     (if c = CHR 0x22 then Some ([], cs)
      else if c = CHR 0x5C then
        (case cs of
           [] \<Rightarrow> None
         | e # cs' \<Rightarrow>
             if e = CHR ''u'' then
               (case cs' of
                  h1 # h2 # h3 # h4 # cs'' \<Rightarrow>
                    (case hex4 h1 h2 h3 h4 of
                       None \<Rightarrow> None
                     | Some n \<Rightarrow> map_option (apfst ((@) (utf8_of_unit n))) (lex_string cs''))
                | _ \<Rightarrow> None)
             else
               (case escape_char e of
                  None \<Rightarrow> None
                | Some d \<Rightarrow> map_option (apfst ((#) d)) (lex_string cs')))
      else if (of_char c :: nat) < 32 then None
      else map_option (apfst ((#) c)) (lex_string cs))"

text \<open>
  A number: an optional minus, an integer part without a leading zero, an optional
  fraction, an optional exponent.
\<close>

definition lex_int_part :: "string \<Rightarrow> (string \<times> string) option" where
  "lex_int_part cs =
     (case cs of
        [] \<Rightarrow> None
      | d # r \<Rightarrow>
          if d = CHR ''0'' then Some ([d], r)
          else if is_digit d then Some (takeWhile is_digit cs, dropWhile is_digit cs)
          else None)"

definition lex_fraction :: "string \<Rightarrow> (string \<times> string) option" where
  "lex_fraction cs =
     (case cs of
        d # r \<Rightarrow>
          if d = CHR ''.'' then
            (if takeWhile is_digit r = [] then None
             else Some (takeWhile is_digit r, dropWhile is_digit r))
          else Some ([], cs)
      | [] \<Rightarrow> Some ([], cs))"

definition lex_exponent :: "string \<Rightarrow> (int \<times> string) option" where
  "lex_exponent cs =
     (case cs of
        e # r \<Rightarrow>
          if e = CHR ''e'' \<or> e = CHR ''E'' then
            (let (neg, r') =
                   (case r of
                      s # t \<Rightarrow>
                        if s = CHR ''-'' then (True, t)
                        else if s = CHR ''+'' then (False, t) else (False, r)
                    | [] \<Rightarrow> (False, r))
             in if takeWhile is_digit r' = [] then None
                else Some ((if neg then - 1 else 1) * int (digits_value (takeWhile is_digit r')),
                           dropWhile is_digit r'))
          else Some (0, cs)
      | [] \<Rightarrow> Some (0, cs))"

definition scale10 :: "rat \<Rightarrow> int \<Rightarrow> rat" where
  "scale10 m e = (if 0 \<le> e then m * 10 ^ nat e else m / 10 ^ nat (- e))"

definition lex_number :: "string \<Rightarrow> (rat \<times> string) option" where
  "lex_number cs =
     (let (neg, cs1) =
            (case cs of
               s # t \<Rightarrow> if s = CHR ''-'' then (True, t) else (False, cs)
             | [] \<Rightarrow> (False, cs))
      in case lex_int_part cs1 of
           None \<Rightarrow> None
         | Some (ip, cs2) \<Rightarrow>
             (case lex_fraction cs2 of
                None \<Rightarrow> None
              | Some (fp, cs3) \<Rightarrow>
                  (case lex_exponent cs3 of
                     None \<Rightarrow> None
                   | Some (ex, cs4) \<Rightarrow>
                       Some (scale10
                               ((if neg then - 1 else 1) * of_nat (digits_value (ip @ fp)))
                               (ex - int (length fp)),
                             cs4))))"

definition is_ws :: "char \<Rightarrow> bool" where
  "is_ws c \<longleftrightarrow> c = CHR '' '' \<or> c = CHR 0x09 \<or> c = CHR 0x0A \<or> c = CHR 0x0D"

text \<open>The tokens of a text; \<open>None\<close> where the runtime throws a SyntaxError.\<close>

function tokenize :: "string \<Rightarrow> token list option" where
  "tokenize [] = Some []"
| "tokenize (c # cs) =
     (if is_ws c then tokenize cs
      else if c = CHR ''{'' then map_option ((#) TLBrace) (tokenize cs)
      else if c = CHR ''}'' then map_option ((#) TRBrace) (tokenize cs)
      else if c = CHR ''['' then map_option ((#) TLBracket) (tokenize cs)
      else if c = CHR '']'' then map_option ((#) TRBracket) (tokenize cs)
      else if c = CHR '':'' then map_option ((#) TColon) (tokenize cs)
      else if c = CHR '','' then map_option ((#) TComma) (tokenize cs)
      else if c = CHR 0x22 then
        (case lex_string cs of
           None \<Rightarrow> None
         | Some (s, r) \<Rightarrow> map_option ((#) (TString s)) (tokenize r))
      else if c = CHR ''-'' \<or> is_digit c then
        (case lex_number (c # cs) of
           None \<Rightarrow> None
         | Some (v, r) \<Rightarrow> map_option ((#) (TNumber v)) (tokenize r))
      else if take 4 (c # cs) = ''true'' then map_option ((#) TTrue) (tokenize (drop 3 cs))
      else if take 5 (c # cs) = ''false'' then map_option ((#) TFalse) (tokenize (drop 4 cs))
      else if take 4 (c # cs) = ''null'' then map_option ((#) TNull) (tokenize (drop 3 cs))
      else None)"
  by pat_completeness auto
termination
proof -
  have str: "length r \<le> length cs" if "lex_string cs = Some (s, r)" for cs s r
    using that
  proof (induction cs arbitrary: s r rule: lex_string.induct)
    case 1
    then show ?case by simp
  next
    case (2 c cs)
    show ?case
    proof (cases "c = CHR 0x22")
      case True
      with 2 show ?thesis by simp
    next
      case nq: False
      show ?thesis
      proof (cases "c = CHR 0x5C")
        case True
        with nq 2 show ?thesis
          apply (clarsimp split: if_splits list.splits option.splits)
           apply force
          apply force
          done
      next
        case False
        with nq 2 show ?thesis
          by (auto split: if_splits)
      qed
    qed
  qed
  have ip: "length r < length cs" if "lex_int_part cs = Some (d, r)" for cs d r
    using that
    by (auto simp: lex_int_part_def split: list.splits if_splits
        intro: le_imp_less_Suc length_dropWhile_le)
  have fp: "length r \<le> length cs" if "lex_fraction cs = Some (d, r)" for cs d r
    using that
    by (auto simp: lex_fraction_def split: list.splits if_splits
        intro: le_SucI length_dropWhile_le)
  have ep: "length r \<le> length cs" if "lex_exponent cs = Some (e, r)" for cs e r
    using that
    by (auto simp: lex_exponent_def Let_def split: list.splits if_splits
        intro: le_SucI length_dropWhile_le)
  have num: "length r < length cs" if "lex_number cs = Some (v, r)" for cs v r
    using that
    by (auto simp: lex_number_def split: list.splits if_splits option.splits
        dest!: ip fp ep)
  show ?thesis
  proof (relation "measure length", goal_cases)
    case (9 c cs x2 s r)
    then have "lex_string cs = Some (s, r)" by simp
    from str [OF this] show ?case by simp
  next
    case (10 c cs x2 v r)
    then have "lex_number (c # cs) = Some (v, r)" by simp
    from num [OF this] show ?case by simp
  qed (simp_all (no_asm))
qed

text \<open>
  The grammar of values, by recursive descent: a value and the tokens after it. The test
  \<open>length r < length ts\<close> holds for every result of \<open>parse_value\<close>; it is what the
  termination proof of the two loops stands on.
\<close>

function (sequential) parse_value :: "token list \<Rightarrow> (json \<times> token list) option"
  and parse_elements :: "json list \<Rightarrow> token list \<Rightarrow> (json \<times> token list) option"
  and parse_members :: "(string \<times> json) list \<Rightarrow> token list \<Rightarrow> (json \<times> token list) option"
where
  "parse_value (TNull # ts) = Some (JNull, ts)"
| "parse_value (TTrue # ts) = Some (JBool True, ts)"
| "parse_value (TFalse # ts) = Some (JBool False, ts)"
| "parse_value (TNumber n # ts) = Some (JNum n, ts)"
| "parse_value (TString s # ts) = Some (JStr s, ts)"
| "parse_value (TLBracket # TRBracket # ts) = Some (JArr [], ts)"
| "parse_value (TLBracket # ts) = parse_elements [] ts"
| "parse_value (TLBrace # TRBrace # ts) = Some (JObj [], ts)"
| "parse_value (TLBrace # ts) = parse_members [] ts"
| "parse_value _ = None"
| "parse_elements acc ts =
     (case parse_value ts of
        None \<Rightarrow> None
      | Some (v, r) \<Rightarrow>
          if length r < length ts then
            (case r of
               TComma # r' \<Rightarrow> parse_elements (acc @ [v]) r'
             | TRBracket # r' \<Rightarrow> Some (JArr (acc @ [v]), r')
             | _ \<Rightarrow> None)
          else None)"
| "parse_members acc (TString k # TColon # ts) =
     (case parse_value ts of
        None \<Rightarrow> None
      | Some (v, r) \<Rightarrow>
          if length r < length ts then
            (case r of
               TComma # r' \<Rightarrow> parse_members (acc @ [(k, v)]) r'
             | TRBrace # r' \<Rightarrow> Some (JObj (acc @ [(k, v)]), r')
             | _ \<Rightarrow> None)
          else None)"
| "parse_members acc _ = None"
  by pat_completeness auto
termination
  by (relation "measure (\<lambda>x. case x of
        Inl ts \<Rightarrow> 2 * length ts
      | Inr (Inl (acc, ts)) \<Rightarrow> 2 * length ts + 1
      | Inr (Inr (acc, ts)) \<Rightarrow> 2 * length ts + 1)") auto

text \<open>\<^verbatim>\<open>JSON.parse(text)\<close>: one value, and nothing but white space after it.\<close>

definition JSON_parse :: "string \<Rightarrow> json option" where
  "JSON_parse s =
     (case tokenize s of
        None \<Rightarrow> None
      | Some ts \<Rightarrow> (case parse_value ts of Some (v, []) \<Rightarrow> Some v | _ \<Rightarrow> None))"

text \<open>
  \<^verbatim>\<open>JSON.stringify\<close> at the type \<^verbatim>\<open>RemoteCacheEntry\<close>, an object with
  a string \<^verbatim>\<open>data\<close> and a number \<^verbatim>\<open>expires\<close>. The expiry is a time stamp
  in milliseconds, modelled as an integer, printed in decimal.
\<close>

function show_nat :: "nat \<Rightarrow> string" where
  "show_nat n =
     (if n < 10 then [char_of (48 + n)] else show_nat (n div 10) @ [char_of (48 + n mod 10)])"
  by pat_completeness auto
termination
  by (relation "measure id") auto

definition show_int :: "int \<Rightarrow> string" where
  "show_int i = (if i < 0 then CHR ''-'' # show_nat (nat (- i)) else show_nat (nat i))"

definition hex_digit :: "nat \<Rightarrow> char" where
  "hex_digit n = (if n < 10 then char_of (48 + n) else char_of (87 + n))"

definition quote_char :: "char \<Rightarrow> string" where
  "quote_char c =
     (if c = CHR 0x22 then [CHR 0x5C, CHR 0x22]
      else if c = CHR 0x5C then [CHR 0x5C, CHR 0x5C]
      else if c = CHR 0x08 then [CHR 0x5C, CHR ''b'']
      else if c = CHR 0x0C then [CHR 0x5C, CHR ''f'']
      else if c = CHR 0x0A then [CHR 0x5C, CHR ''n'']
      else if c = CHR 0x0D then [CHR 0x5C, CHR ''r'']
      else if c = CHR 0x09 then [CHR 0x5C, CHR ''t'']
      else if (of_char c :: nat) < 32 then
        [CHR 0x5C, CHR ''u'', CHR ''0'', CHR ''0'',
         hex_digit (of_char c div 16), hex_digit (of_char c mod 16)]
      else [c])"

definition json_quote :: "string \<Rightarrow> string" where
  "json_quote s = CHR 0x22 # concat (map quote_char s) @ [CHR 0x22]"

definition stringify_entry :: "string \<Rightarrow> int \<Rightarrow> string" where
  "stringify_entry d e =
     CHR ''{'' # json_quote ''data'' @ CHR '':'' # json_quote d @
     CHR '','' # json_quote ''expires'' @ CHR '':'' # show_int e @ [CHR ''}'']"


section \<open>The world of a build\<close>

subsection \<open>Paths\<close>

text \<open>
  A file or a directory is named by the list of the segments of its URL. An output
  identity such as \<^verbatim>\<open>/_astro/logo.hash.webp\<close> is a string; resolving it against
  a directory appends its segments (identities are plain paths, without \<^verbatim>\<open>.\<close> and
  \<^verbatim>\<open>..\<close> segments, and they name files). \<^verbatim>\<open>basename\<close> is the one of
  \<^verbatim>\<open>node:path/posix\<close>: the last segment, empty when there is none.
\<close>

type_synonym path = "string list"

fun split_slash :: "string \<Rightarrow> string list" where
  "split_slash [] = [[]]"
| "split_slash (c # cs) =
     (if c = CHR ''/'' then [] # split_slash cs
      else (case split_slash cs of s # ss \<Rightarrow> (c # s) # ss | [] \<Rightarrow> [[c]]))"

definition segments :: "string \<Rightarrow> path" where
  "segments s = filter (\<lambda>x. x \<noteq> []) (split_slash s)"

definition basename :: "string \<Rightarrow> string" where
  "basename s = (case rev (segments s) of [] \<Rightarrow> [] | b # _ \<Rightarrow> b)"

text \<open>\<^verbatim>\<open>new URL(name, dir)\<close> for a directory and a name without a slash.\<close>

definition resolve_name :: "path \<Rightarrow> string \<Rightarrow> path" where
  "resolve_name dir name = (if name = [] then dir else dir @ [name])"

subsection \<open>Errors, log and state\<close>

datatype errno = ENOENT | EACCES | EISDIR | ENOTDIR

text \<open>
  What the code throws: an error of the file system with its \<^verbatim>\<open>code\<close>, the
  SyntaxError of \<^verbatim>\<open>JSON.parse\<close>, a TypeError, and \<^verbatim>\<open>new Error(message)\<close>
  (the failures of the image service and of the remote loader are such errors too).
\<close>

datatype err = FsError errno path | SyntaxError | TypeError | Error string

definition err_code :: "err \<Rightarrow> errno option" where
  "err_code e = (case e of FsError c p \<Rightarrow> Some c | _ \<Rightarrow> None)"

definition errno_name :: "errno \<Rightarrow> string" where
  "errno_name c =
     (case c of ENOENT \<Rightarrow> ''ENOENT'' | EACCES \<Rightarrow> ''EACCES''
      | EISDIR \<Rightarrow> ''EISDIR'' | ENOTDIR \<Rightarrow> ''ENOTDIR'')"

definition path_text :: "path \<Rightarrow> string" where
  "path_text p = concat (map (\<lambda>s. CHR ''/'' # s) p)"

text \<open>The text of an error inside a template string.\<close>

definition err_text :: "err \<Rightarrow> string" where
  "err_text e =
     (case e of
        FsError c p \<Rightarrow> ''Error: '' @ errno_name c @ '': '' @ path_text p
      | SyntaxError \<Rightarrow> ''SyntaxError''
      | TypeError \<Rightarrow> ''TypeError''
      | Error m \<Rightarrow> ''Error: '' @ m)"

datatype log_entry = Warn string string | Info string

record ImageMetadata =
  metadata_src :: string
  metadata_format :: string

datatype image_src = Imported ImageMetadata | Url string

text \<open>An \<^verbatim>\<open>ImageTransform\<close>: the source and the rest of the options, kept opaque.\<close>

record ImageTransform =
  src :: image_src
  settings :: string

type_synonym image_config = string

text \<open>
  The calls a build makes, in order: each call of the source loader, of the image
  service, and each attempt to write, copy or create on the file system.
\<close>

datatype event =
    EvLoadImage string
  | EvTransform buffer ImageTransform
  | EvWriteFile path buffer
  | EvCopyFile path path
  | EvMkdir path

text \<open>
  The state: the files and directories, the paths on which every operation fails with
  \<^verbatim>\<open>EACCES\<close>, the clock \<^verbatim>\<open>Date.now()\<close> reads, the logger's output and the
  calls made so far. A write is all or nothing.
\<close>

record world =
  files :: "path \<rightharpoonup> buffer"
  dirs :: "path set"
  denied :: "path set"
  now :: int
  logged :: "log_entry list"
  trace :: "event list"

definition record_event :: "event \<Rightarrow> world \<Rightarrow> world" where
  "record_event ev w = w\<lparr>trace := trace w @ [ev]\<rparr>"


subsection \<open>File operations\<close>

definition get_file :: "path \<Rightarrow> world \<Rightarrow> err + buffer" where
  "get_file p w =
     (if p \<in> denied w then Inl (FsError EACCES p)
      else if p \<in> dirs w then Inl (FsError EISDIR p)
      else (case files w p of None \<Rightarrow> Inl (FsError ENOENT p) | Some b \<Rightarrow> Inr b))"

definition put_file :: "path \<Rightarrow> buffer \<Rightarrow> world \<Rightarrow> (err + unit) \<times> world" where
  "put_file p b w =
     (if p \<in> denied w then (Inl (FsError EACCES p), w)
      else if p \<in> dirs w then (Inl (FsError EISDIR p), w)
      else if butlast p \<notin> dirs w then
        (if files w (butlast p) \<noteq> None then (Inl (FsError ENOTDIR p), w)
         else (Inl (FsError ENOENT p), w))
      else (Inr (), w\<lparr>files := (files w)(p \<mapsto> b)\<rparr>))"

definition readFile :: "path \<Rightarrow> world \<Rightarrow> (err + buffer) \<times> world" where
  "readFile p w = (get_file p w, w)"

definition writeFile :: "path \<Rightarrow> buffer \<Rightarrow> world \<Rightarrow> (err + unit) \<times> world" where
  "writeFile p b w = put_file p b (record_event (EvWriteFile p b) w)"

definition copyFile :: "path \<Rightarrow> path \<Rightarrow> world \<Rightarrow> (err + unit) \<times> world" where
  "copyFile s d w =
     (let w' = record_event (EvCopyFile s d) w in
      case get_file s w' of
        Inl e \<Rightarrow> (Inl e, w')
      | Inr b \<Rightarrow> put_file d b w')"

text \<open>\<^verbatim>\<open>mkdir(p, { recursive: true })\<close>: the directory and those above it.\<close>

definition mkdir :: "path \<Rightarrow> world \<Rightarrow> (err + unit) \<times> world" where
  "mkdir p w =
     (let w' = record_event (EvMkdir p) w in
      if p \<in> denied w then (Inl (FsError EACCES p), w')
      else if list_ex (\<lambda>q. files w q \<noteq> None) (prefixes p) then (Inl (FsError ENOTDIR p), w')
      else (Inr (), w'\<lparr>dirs := dirs w \<union> set (prefixes p)\<rparr>))"

subsection \<open>Values the cache check reads\<close>

text \<open>
  \<^verbatim>\<open>JSONData.expires\<close> and \<^verbatim>\<open>JSONData.data\<close>: reading a property of
  \<^verbatim>\<open>null\<close> throws, an object gives its last binding of the name,
  and every other value gives \<^verbatim>\<open>undefined\<close> (\<open>None\<close>) for these two names.
\<close>

definition get_property :: "json \<Rightarrow> string \<Rightarrow> err + json option" where
  "get_property j k =
     (case j of
        JNull \<Rightarrow> Inl TypeError
      | JObj kvs \<Rightarrow> Inr (map_of (rev kvs) k)
      | _ \<Rightarrow> Inr None)"

text \<open>
  The capabilities outside the module: \<^verbatim>\<open>isRemotePath\<close> of
  \<^verbatim>\<open>core/path.js\<close>, \<^verbatim>\<open>loadRemoteImage\<close> of \<^verbatim>\<open>./remote.js\<close>, the
  configured image service with its \<^verbatim>\<open>transform\<close>, and two coercions
  of the runtime left open: the number a string, an array or an object stands for in a
  comparison (\<open>None\<close> is NaN), and the buffer \<^verbatim>\<open>Buffer.from\<close> makes of an array or
  an object.
\<close>

record image_data =
  data :: buffer
  expires :: int

record runtime =
  isRemotePath :: "string \<Rightarrow> bool"
  loadRemoteImage :: "string \<Rightarrow> err + image_data"
  getConfiguredImageService ::
    "err + (buffer \<Rightarrow> ImageTransform \<Rightarrow> image_config \<Rightarrow> err + buffer)"
  coerce_number :: "json \<Rightarrow> rat option"
  coerce_buffer :: "json \<Rightarrow> err + buffer"

text \<open>The number a property stands for on the left of \<^verbatim>\<open>>\<close>.\<close>

definition to_number :: "runtime \<Rightarrow> json option \<Rightarrow> rat option" where
  "to_number rt v =
     (case v of
        None \<Rightarrow> None
      | Some JNull \<Rightarrow> Some 0
      | Some (JBool b) \<Rightarrow> Some (if b then 1 else 0)
      | Some (JNum n) \<Rightarrow> Some n
      | Some j \<Rightarrow> coerce_number rt j)"

definition greater_than :: "rat option \<Rightarrow> int \<Rightarrow> bool" where
  "greater_than v t = (case v of None \<Rightarrow> False | Some n \<Rightarrow> of_int t < n)"

text \<open>\<^verbatim>\<open>Buffer.from(v, 'base64')\<close>.\<close>

definition Buffer_from_base64 :: "runtime \<Rightarrow> json option \<Rightarrow> err + buffer" where
  "Buffer_from_base64 rt v =
     (case v of
        Some (JStr s) \<Rightarrow> Inr (base64_decode s)
      | Some (JArr xs) \<Rightarrow> coerce_buffer rt (JArr xs)
      | Some (JObj kvs) \<Rightarrow> coerce_buffer rt (JObj kvs)
      | _ \<Rightarrow> Inl TypeError)"

section \<open>The module \<^verbatim>\<open>assets/build/generate.ts\<close>\<close>

subsection \<open>Preparing the environment\<close>

text \<open>
  The fields of the configuration the module reads, with the results of the two helpers
  it calls on it (\<^verbatim>\<open>isServerLikeOutput\<close> and \<^verbatim>\<open>getOutDirWithinCwd\<close>, which
  are outside the module).
\<close>

record AstroConfig =
  cacheDir :: path
  outDir :: path
  build_server :: path
  build_client :: path
  build_assets :: string
  config_image :: image_config
  isServerLikeOutput :: bool
  outDirWithinCwd :: path

record env =
  useCache :: bool
  assetsCacheDir :: path
  serverRoot :: path
  clientRoot :: path
  imageConfig :: image_config
  assetsFolder :: string

text \<open>
  The warning of both \<^verbatim>\<open>catch\<close> blocks of the module (lines 39 and 178): the
  same text, with the error.
\<close>

definition cache_warning :: "err \<Rightarrow> log_entry" where
  "cache_warning x =
     Warn ''astro:assets''
       (''An error was encountered while creating the cache directory. Proceeding without caching. Error: ''
          @ err_text x)"

text \<open>
  \<^verbatim>\<open>prepareAssetsGeneration\<close>: the cache directory is created; when that throws, a
  warning is logged and \<^verbatim>\<open>useCache\<close> is false.
\<close>

definition prepareAssetsGeneration :: "AstroConfig \<Rightarrow> world \<Rightarrow> (err + env) \<times> world" where
  "prepareAssetsGeneration config w =
     (let assetsCacheDir = cacheDir config @ [''assets''];
          (useCache, w1) =
            (case mkdir assetsCacheDir w of
               (Inr u, w') \<Rightarrow> (True, w')
             | (Inl x, w') \<Rightarrow> (False, w'\<lparr>logged := logged w' @ [cache_warning x]\<rparr>));
          (serverRoot, clientRoot) =
            (if isServerLikeOutput config then (build_server config, build_client config)
             else (outDirWithinCwd config, outDir config))
      in (Inr \<lparr>useCache = useCache, assetsCacheDir = assetsCacheDir,
               serverRoot = serverRoot, clientRoot = clientRoot,
               imageConfig = config_image config, assetsFolder = build_assets config\<rparr>,
          w1))"

subsection \<open>One job\<close>

datatype GenerationData =
    GenerationDataCached
  | GenerationDataUncached (before: nat) (after: nat)

definition isESMImportedImage :: "image_src \<Rightarrow> bool" where
  "isESMImportedImage s = (case s of Imported m \<Rightarrow> True | Url u \<Rightarrow> False)"

text \<open>
  The body of the \<^verbatim>\<open>try\<close> that checks the cache (lines 115 to 132). \<open>Inr True\<close>:
  it returned \<^verbatim>\<open>{ cached: true }\<close>; \<open>Inr False\<close>: it ended without returning;
  \<open>Inl e\<close>: it threw \<open>e\<close>.
\<close>

definition cache_try :: "runtime \<Rightarrow> bool \<Rightarrow> path \<Rightarrow> path \<Rightarrow> world \<Rightarrow> (err + bool) \<times> world" where
  "cache_try rt isLocalImage cached final w =
     (if isLocalImage then
        (case copyFile cached final w of
           (Inl e, w1) \<Rightarrow> (Inl e, w1)
         | (Inr u, w1) \<Rightarrow> (Inr True, w1))
      else
        (case readFile cached w of
           (Inl e, w1) \<Rightarrow> (Inl e, w1)
         | (Inr bytes, w1) \<Rightarrow>
             (case JSON_parse (utf8_decode bytes) of
                None \<Rightarrow> (Inl SyntaxError, w1)
              | Some JSONData \<Rightarrow>
                  (case get_property JSONData ''expires'' of
                     Inl e \<Rightarrow> (Inl e, w1)
                   | Inr ex \<Rightarrow>
                       if greater_than (to_number rt ex) (now w1) then
                         (case get_property JSONData ''data'' of
                            Inl e \<Rightarrow> (Inl e, w1)
                          | Inr d \<Rightarrow>
                              (case Buffer_from_base64 rt d of
                                 Inl e \<Rightarrow> (Inl e, w1)
                               | Inr buf \<Rightarrow>
                                   (case writeFile final buf w1 of
                                      (Inl e, w2) \<Rightarrow> (Inl e, w2)
                                    | (Inr u, w2) \<Rightarrow> (Inr True, w2))))
                       else (Inr False, w1)))))"

text \<open>
  The \<^verbatim>\<open>try\<close> with its \<^verbatim>\<open>catch\<close> (lines 114 to 138): an error whose code is
  not \<^verbatim>\<open>ENOENT\<close> is thrown again as an error about reading the cache file; with
  \<^verbatim>\<open>ENOENT\<close> the job moves on.
\<close>

definition check_cache :: "runtime \<Rightarrow> bool \<Rightarrow> path \<Rightarrow> path \<Rightarrow> world \<Rightarrow> (err + bool) \<times> world" where
  "check_cache rt isLocalImage cached final w =
     (case cache_try rt isLocalImage cached final w of
        (Inr r, w1) \<Rightarrow> (Inr r, w1)
      | (Inl e, w1) \<Rightarrow>
          if err_code e \<noteq> Some ENOENT then
            (Inl (Error (''An error was encountered while reading the cache file. Error: ''
                           @ err_text e)), w1)
          else (Inr False, w1))"

text \<open>
  The \<^verbatim>\<open>try\<close>, \<^verbatim>\<open>catch\<close> and \<^verbatim>\<open>finally\<close> that write the cache entry
  and the final file (lines 162 to 185).
\<close>

definition cache_payload :: "bool \<Rightarrow> buffer \<Rightarrow> int \<Rightarrow> buffer" where
  "cache_payload isLocalImage resultData resultExpires =
     (if isLocalImage then resultData
      else utf8_encode (stringify_entry (base64_encode resultData) resultExpires))"

definition write_outputs ::
  "env \<Rightarrow> bool \<Rightarrow> path \<Rightarrow> path \<Rightarrow> buffer \<Rightarrow> int \<Rightarrow> world \<Rightarrow> (err + unit) \<times> world" where
  "write_outputs e isLocalImage cached final resultData resultExpires w =
     (let (r, w1) =
            (if useCache e then
               writeFile cached (cache_payload isLocalImage resultData resultExpires) w
             else (Inr (), w));
          w2 = (case r of Inr u \<Rightarrow> w1 | Inl x \<Rightarrow> w1\<lparr>logged := logged w1 @ [cache_warning x]\<rparr>)
      in writeFile final resultData w2)"

text \<open>
  The two URLs of a job (lines 107 to 111): the final file under the client root, and the
  cache file, named by the base name of the output, with \<^verbatim>\<open>.json\<close> for a remote
  image.
\<close>

definition finalFileURL :: "env \<Rightarrow> string \<Rightarrow> path" where
  "finalFileURL e filepath = clientRoot e @ segments filepath"

definition cachedFileURL :: "env \<Rightarrow> string \<Rightarrow> bool \<Rightarrow> path" where
  "cachedFileURL e filepath isLocalImage =
     resolve_name (assetsCacheDir e)
       (basename filepath @ (if isLocalImage then [] else ''.json''))"

definition originalImagePath :: "ImageTransform \<Rightarrow> string" where
  "originalImagePath options = (case src options of Imported m \<Rightarrow> metadata_src m | Url s \<Rightarrow> s)"

text \<open>
  The part after the cache check (lines 140 to 194): the folder of the final file, the
  image service, the two writes, the sizes in kilobytes.
\<close>

definition regenerate ::
  "runtime \<Rightarrow> env \<Rightarrow> image_data \<Rightarrow> string \<Rightarrow> ImageTransform \<Rightarrow> world
     \<Rightarrow> (err + GenerationData) \<times> world" where
  "regenerate rt e originalImage filepath options w =
     (let isLocalImage = isESMImportedImage (src options) in
      case mkdir (butlast (finalFileURL e filepath)) w of
        (Inl x, w2) \<Rightarrow> (Inl x, w2)
      | (Inr u, w2) \<Rightarrow>
          (case getConfiguredImageService rt of
             Inl x \<Rightarrow> (Inl x, w2)
           | Inr service \<Rightarrow>
               (let opts = options\<lparr>src := Url (originalImagePath options)\<rparr>;
                    w3 = record_event (EvTransform (data originalImage) opts) w2
                in case service (data originalImage) opts (imageConfig e) of
                     Inl x \<Rightarrow> (Inl x, w3)
                   | Inr resultData \<Rightarrow>
                       (case write_outputs e isLocalImage
                               (cachedFileURL e filepath isLocalImage) (finalFileURL e filepath)
                               resultData (expires originalImage) w3 of
                          (Inl x, w4) \<Rightarrow> (Inl x, w4)
                        | (Inr u', w4) \<Rightarrow>
                            (Inr (GenerationDataUncached
                                    (length (data originalImage) div 1024)
                                    (length resultData div 1024)),
                             w4)))))"

text \<open>\<^verbatim>\<open>generateImageInternal\<close> (lines 101 to 195).\<close>

definition generateImageInternal ::
  "runtime \<Rightarrow> env \<Rightarrow> image_data \<Rightarrow> string \<Rightarrow> ImageTransform \<Rightarrow> world
     \<Rightarrow> (err + GenerationData) \<times> world" where
  "generateImageInternal rt e originalImage filepath options w =
     (let isLocalImage = isESMImportedImage (src options) in
      case check_cache rt isLocalImage (cachedFileURL e filepath isLocalImage)
             (finalFileURL e filepath) w of
        (Inl x, w1) \<Rightarrow> (Inl x, w1)
      | (Inr True, w1) \<Rightarrow> (Inr GenerationDataCached, w1)
      | (Inr False, w1) \<Rightarrow> regenerate rt e originalImage filepath options w1)"



subsection \<open>Loading a source and queueing its jobs\<close>







subsection \<open>Reading the list of calls\<close>



text \<open>
  A location can be written when it is not denied, is not a directory and its folder
  exists. A remote entry is a cache file that can be read and parses to an object whose
  \<^verbatim>\<open>data\<close> is the string \<open>s\<close> and whose \<^verbatim>\<open>expires\<close> is the number \<open>n\<close>.
\<close>

definition writable :: "world \<Rightarrow> path \<Rightarrow> bool" where
  "writable w p \<longleftrightarrow> p \<notin> denied w \<and> p \<notin> dirs w \<and> butlast p \<in> dirs w"



subsection \<open>A small build, for the examples\<close>

text \<open>
  A runtime whose image service reverses the bytes, an environment with caching on, and
  a state with the cache directory and the output directory in place and no file yet.
\<close>

definition ex_runtime :: runtime where
  "ex_runtime =
     \<lparr>isRemotePath = (\<lambda>p. take 4 p = ''http''),
      loadRemoteImage = (\<lambda>p. Inr \<lparr>data = [1, 2, 3], expires = 100\<rparr>),
      getConfiguredImageService = Inr (\<lambda>b opts cfg. Inr (rev b)),
      coerce_number = (\<lambda>j. None),
      coerce_buffer = (\<lambda>j. Inl TypeError)\<rparr>"

definition ex_env :: env where
  "ex_env =
     \<lparr>useCache = True, assetsCacheDir = [''cache'', ''assets''], serverRoot = [''dist''],
      clientRoot = [''dist''], imageConfig = [], assetsFolder = ''_astro''\<rparr>"

definition ex_world :: world where
  "ex_world =
     \<lparr>files = Map.empty,
      dirs = {[], [''cache''], [''cache'', ''assets''], [''dist''], [''dist'', ''_astro'']},
      denied = {}, now = 50, logged = [], trace = []\<rparr>"

definition ex_config :: AstroConfig where
  "ex_config =
     \<lparr>cacheDir = [''cache''], outDir = [''dist''], build_server = [''dist'', ''server''],
      build_client = [''dist'', ''client''], build_assets = ''_astro'', config_image = [],
      isServerLikeOutput = False, outDirWithinCwd = [''dist'']\<rparr>"

definition ex_image :: image_data where
  "ex_image = \<lparr>data = [1, 2, 3], expires = 100\<rparr>"

definition ex_remote_options :: ImageTransform where
  "ex_remote_options = \<lparr>src = Url ''http://x/a.png'', settings = ''w=100''\<rparr>"

definition ex_local_options :: ImageTransform where
  "ex_local_options =
     \<lparr>src = Imported \<lparr>metadata_src = ''/_astro/a.png'', metadata_format = ''png''\<rparr>,
      settings = ''w=100''\<rparr>"

text \<open>A runtime whose image service rejects every image.\<close>

definition ex_failing_runtime :: runtime where
  "ex_failing_runtime =
     ex_runtime\<lparr>getConfiguredImageService := Inr (\<lambda>b opts cfg. Inl (Error ''unsupported''))\<rparr>"

text \<open>The state with a cache entry of the local image in place.\<close>

definition ex_world_local_cached :: world where
  "ex_world_local_cached =
     ex_world\<lparr>files := [[''cache'', ''assets'', ''a.webp''] \<mapsto> [9, 9]]\<rparr>"







text \<open>
  The state with a cache entry of the local image, before the folder of the final file
  exists.
\<close>

definition ex_world_no_output_dir :: world where
  "ex_world_no_output_dir =
     ex_world_local_cached\<lparr>dirs := {[], [''cache''], [''cache'', ''assets''], [''dist'']}\<rparr>"

section \<open>Facts about the runtime\<close>

subsection \<open>Base64 decodes what it encoded\<close>







lemma byte_eqI:
  fixes a b :: byte
  assumes "\<And>n. n \<in> {0, 1, 2, 3, 4, 5, 6, 7} \<Longrightarrow> bit a n = bit b n"
  shows "a = b"
proof (rule bit_word_eqI)
  fix n
  assume n8: "n < LENGTH(8)"
  then have "n \<in> {0, 1, 2, 3, 4, 5, 6, 7}" by auto
  then show "bit a n = bit b n" by (rule assms)
qed









subsection \<open>The parser consumes its input\<close>

text \<open>
  Every result of the parser leaves fewer tokens than it was given, so the test on the
  lengths in \<open>parse_elements\<close> and \<open>parse_members\<close> never fails: the two functions
  satisfy the equations of the recursive descent without it.
\<close>

lemma parse_shorter:
  "parse_value ts = Some (v, r) \<Longrightarrow> length r < length ts"
  "parse_elements acc ts = Some (v, r) \<Longrightarrow> length r < length ts"
  "parse_members m ts = Some (v, r) \<Longrightarrow> length r < length ts"
proof (induction ts and acc ts and m ts arbitrary: v r and v r and v r
    rule: parse_value_parse_elements_parse_members.induct)
  case (11 acc ts)
  from "11.prems" obtain v0 r0 where
    p: "parse_value ts = Some (v0, r0)" and l: "length r0 < length ts"
    and c: "(case r0 of
               TComma # r' \<Rightarrow> parse_elements (acc @ [v0]) r'
             | TRBracket # r' \<Rightarrow> Some (JArr (acc @ [v0]), r')
             | _ \<Rightarrow> None) = Some (v, r)"
    by (subst (asm) parse_elements.simps)
       (auto split: option.splits if_splits simp del: parse_elements.simps)
  show ?case
  proof (cases r0)
    case Nil
    with c show ?thesis by simp
  next
    case (Cons t r')
    show ?thesis
    proof (cases t)
      case TComma
      with c Cons have "parse_elements (acc @ [v0]) r' = Some (v, r)"
        by (simp del: parse_elements.simps)
      from "11.IH"(2) [OF p refl l Cons TComma this] l Cons show ?thesis by simp
    next
      case TRBracket
      with c Cons l show ?thesis by (simp del: parse_elements.simps)
    qed (use c Cons in \<open>simp_all del: parse_elements.simps\<close>)
  qed
next
  case (12 acc k ts)
  from "12.prems" obtain v0 r0 where
    p: "parse_value ts = Some (v0, r0)" and l: "length r0 < length ts"
    and c: "(case r0 of
               TComma # r' \<Rightarrow> parse_members (acc @ [(k, v0)]) r'
             | TRBrace # r' \<Rightarrow> Some (JObj (acc @ [(k, v0)]), r')
             | _ \<Rightarrow> None) = Some (v, r)"
    by (subst (asm) parse_members.simps)
       (auto split: option.splits if_splits simp del: parse_members.simps)
  show ?case
  proof (cases r0)
    case Nil
    with c show ?thesis by simp
  next
    case (Cons t r')
    show ?thesis
    proof (cases t)
      case TComma
      with c Cons have "parse_members (acc @ [(k, v0)]) r' = Some (v, r)"
        by (simp del: parse_members.simps)
      from "12.IH"(2) [OF p refl l Cons TComma this] l Cons show ?thesis by simp
    next
      case TRBrace
      with c Cons l show ?thesis by (simp del: parse_members.simps)
    qed (use c Cons in \<open>simp_all del: parse_members.simps\<close>)
  qed
qed (auto simp del: parse_elements.simps parse_members.simps(1) dest: less_SucI)

lemma parse_elements_eq:
  "parse_elements acc ts =
     (case parse_value ts of
        None \<Rightarrow> None
      | Some (v, r) \<Rightarrow>
          (case r of
             TComma # r' \<Rightarrow> parse_elements (acc @ [v]) r'
           | TRBracket # r' \<Rightarrow> Some (JArr (acc @ [v]), r')
           | _ \<Rightarrow> None))"
proof (cases "parse_value ts")
  case None
  then show ?thesis by (subst parse_elements.simps) simp
next
  case (Some p)
  obtain v r where p: "p = (v, r)" by (cases p)
  from Some p parse_shorter(1) [of ts v r] have "length r < length ts" by simp
  with Some p show ?thesis
    by (subst parse_elements.simps) (simp del: parse_elements.simps)
qed

lemma parse_members_eq:
  "parse_members acc (TString k # TColon # ts) =
     (case parse_value ts of
        None \<Rightarrow> None
      | Some (v, r) \<Rightarrow>
          (case r of
             TComma # r' \<Rightarrow> parse_members (acc @ [(k, v)]) r'
           | TRBrace # r' \<Rightarrow> Some (JObj (acc @ [(k, v)]), r')
           | _ \<Rightarrow> None))"
proof (cases "parse_value ts")
  case None
  then show ?thesis by (subst parse_members.simps) simp
next
  case (Some p)
  obtain v r where p: "p = (v, r)" by (cases p)
  from Some p parse_shorter(1) [of ts v r] have "length r < length ts" by simp
  with Some p show ?thesis
    by (subst parse_members.simps) (simp del: parse_members.simps(1))
qed

subsection \<open>JSON reads back the entry it wrote\<close>





declare show_nat.simps [simp del]



















section \<open>Facts about the file operations\<close>

lemma put_file_cases:
  assumes "put_file p b w = (r, w')"
  shows "(r = Inr () \<and> w' = w\<lparr>files := (files w)(p \<mapsto> b)\<rparr>
            \<and> p \<notin> denied w \<and> p \<notin> dirs w \<and> butlast p \<in> dirs w)
         \<or> ((\<exists>c. r = Inl (FsError c p)) \<and> w' = w
            \<and> \<not> (p \<notin> denied w \<and> p \<notin> dirs w \<and> butlast p \<in> dirs w))"
  using assms by (auto simp: put_file_def split: if_splits)

lemma writeFile_cases:
  assumes "writeFile p b w = (r, w')"
  shows "(r = Inr ()
            \<and> w' = w\<lparr>trace := trace w @ [EvWriteFile p b], files := (files w)(p \<mapsto> b)\<rparr>
            \<and> p \<notin> denied w \<and> p \<notin> dirs w \<and> butlast p \<in> dirs w)
         \<or> ((\<exists>c. r = Inl (FsError c p)) \<and> w' = w\<lparr>trace := trace w @ [EvWriteFile p b]\<rparr>
            \<and> \<not> (p \<notin> denied w \<and> p \<notin> dirs w \<and> butlast p \<in> dirs w))"
  using assms by (auto simp: writeFile_def put_file_def record_event_def split: if_splits)

lemma writeFile_ok:
  "p \<notin> denied w \<Longrightarrow> p \<notin> dirs w \<Longrightarrow> butlast p \<in> dirs w \<Longrightarrow>
   writeFile p b w =
     (Inr (), w\<lparr>trace := trace w @ [EvWriteFile p b], files := (files w)(p \<mapsto> b)\<rparr>)"
  by (simp add: writeFile_def put_file_def record_event_def)

lemma mkdir_cases:
  assumes "mkdir p w = (r, w')"
  shows "files w' = files w \<and> denied w' = denied w \<and> logged w' = logged w \<and> now w' = now w
         \<and> trace w' = trace w @ [EvMkdir p]
         \<and> ((r = Inr () \<and> dirs w' = dirs w \<union> set (prefixes p))
              \<or> ((\<exists>x. r = Inl x) \<and> dirs w' = dirs w))"
  using assms by (auto simp: mkdir_def record_event_def Let_def split: if_splits)

lemma copyFile_cases:
  assumes "copyFile s d w = (r, w')"
  shows "dirs w' = dirs w \<and> denied w' = denied w \<and> logged w' = logged w \<and> now w' = now w
         \<and> trace w' = trace w @ [EvCopyFile s d]
         \<and> ((\<exists>b. r = Inr () \<and> files w s = Some b \<and> files w' = (files w)(d \<mapsto> b)
                \<and> s \<notin> denied w \<and> s \<notin> dirs w
                \<and> d \<notin> denied w \<and> d \<notin> dirs w \<and> butlast d \<in> dirs w)
             \<or> ((\<exists>x. r = Inl x) \<and> files w' = files w))"
  using assms
  by (auto simp: copyFile_def get_file_def put_file_def record_event_def Let_def
      split: if_splits option.splits)

lemma cache_try_cases:
  assumes "cache_try rt isLocalImage cached final w = (r, w')"
  shows "dirs w' = dirs w \<and> denied w' = denied w \<and> logged w' = logged w \<and> now w' = now w
         \<and> (r = Inr True \<or> files w' = files w)
         \<and> (\<exists>evs. trace w' = trace w @ evs
               \<and> (\<forall>ev \<in> set evs. ev = EvCopyFile cached final \<or> (\<exists>b. ev = EvWriteFile final b)))"
proof (cases isLocalImage)
  case True
  obtain r1 w1 where c: "copyFile cached final w = (r1, w1)"
    by (cases "copyFile cached final w")
  from copyFile_cases [OF c] assms True c show ?thesis
    by (auto simp: cache_try_def split: sum.splits)
next
  case False
  show ?thesis
  proof (cases "\<exists>buf. (\<exists>r2 w2. writeFile final buf w = (r2, w2) \<and> (r, w') = (case r2 of Inl x \<Rightarrow> (Inl x, w2) | Inr u \<Rightarrow> (Inr True, w2)))")
    case True
    then obtain buf r2 w2 where wf: "writeFile final buf w = (r2, w2)"
      and eq: "(r, w') = (case r2 of Inl x \<Rightarrow> (Inl x, w2) | Inr u \<Rightarrow> (Inr True, w2))"
      by blast
    from writeFile_cases [OF wf] eq show ?thesis
      by (auto split: sum.splits)
  next
    case nw: False
    have "w' = w"
      using assms False nw
      by (auto simp: cache_try_def readFile_def split: sum.splits option.splits if_splits prod.splits)
    then show ?thesis by simp
  qed
qed

lemma check_cache_cases:
  assumes "check_cache rt isLocalImage cached final w = (r, w')"
  shows "dirs w' = dirs w \<and> denied w' = denied w \<and> logged w' = logged w \<and> now w' = now w
         \<and> (r = Inr True \<or> files w' = files w)
         \<and> (\<exists>evs. trace w' = trace w @ evs
               \<and> (\<forall>ev \<in> set evs. ev = EvCopyFile cached final \<or> (\<exists>b. ev = EvWriteFile final b)))"
proof -
  obtain r1 w1 where c: "cache_try rt isLocalImage cached final w = (r1, w1)"
    by (cases "cache_try rt isLocalImage cached final w")
  from assms c have w: "w' = w1" and r: "r = Inr True \<longleftrightarrow> r1 = Inr True"
    by (auto simp: check_cache_def split: sum.splits if_splits)
  from cache_try_cases [OF c] w r show ?thesis by auto
qed



lemma write_outputs_trace:
  assumes "write_outputs e l c f bs ex w = (r, w')"
  shows "trace w' = trace w @ (if useCache e then [EvWriteFile c (cache_payload l bs ex)] else [])
                      @ [EvWriteFile f bs]"
proof (cases "useCache e")
  case False
  with assms have wf: "writeFile f bs w = (r, w')"
    by (simp add: write_outputs_def)
  from writeFile_cases [OF wf] False show ?thesis by auto
next
  case True
  obtain r1 w1 where c: "writeFile c (cache_payload l bs ex) w = (r1, w1)"
    by (cases "writeFile c (cache_payload l bs ex) w")
  from writeFile_cases [OF c] have
    w1: "trace w1 = trace w @ [EvWriteFile c (cache_payload l bs ex)]"
    by auto
  show ?thesis
  proof (cases r1)
    case (Inr u)
    with True c assms have wf: "writeFile f bs w1 = (r, w')"
      by (simp add: write_outputs_def)
    from writeFile_cases [OF wf] w1 True show ?thesis by auto
  next
    case (Inl x)
    with True c assms have
      wf: "writeFile f bs (w1\<lparr>logged := logged w1 @ [cache_warning x]\<rparr>) = (r, w')"
      by (simp add: write_outputs_def)
    from writeFile_cases [OF wf] w1 True show ?thesis by auto
  qed
qed







lemma regenerate_transform_fails:
  assumes svc: "getConfiguredImageService rt = Inr service"
    and fail: "service (data originalImage) (options\<lparr>src := Url (originalImagePath options)\<rparr>)
                 (imageConfig e) = Inl x"
    and reg: "regenerate rt e originalImage filepath options w = (r, w')"
  shows "(\<exists>x'. r = Inl x' \<and> (fst (mkdir (butlast (finalFileURL e filepath)) w) = Inr () \<longrightarrow> x' = x))
         \<and> files w' = files w
         \<and> (\<exists>evs. trace w' = trace w @ evs \<and> (\<forall>p b. EvWriteFile p b \<notin> set evs))"
proof -
  obtain r1 w1 where m: "mkdir (butlast (finalFileURL e filepath)) w = (r1, w1)"
    by (cases "mkdir (butlast (finalFileURL e filepath)) w")
  from mkdir_cases [OF m] svc fail reg m show ?thesis
    by (auto simp: regenerate_def Let_def record_event_def split: sum.splits)
qed

lemma write_outputs_cases:
  assumes "write_outputs e isLocalImage cached final resultData resultExpires w = (r, w')"
  shows "(\<exists>evs. trace w' = trace w @ evs @ [EvWriteFile final resultData])
       \<and> (\<forall>x. useCache e \<and>
               fst (writeFile cached (cache_payload isLocalImage resultData resultExpires) w)
                 = Inl x
               \<longrightarrow> logged w' = logged w @ [cache_warning x])
       \<and> (final \<notin> denied w \<and> final \<notin> dirs w \<and> butlast final \<in> dirs w
            \<longrightarrow> r = Inr () \<and> files w' final = Some resultData)"
proof (cases "useCache e")
  case False
  with assms have wf: "writeFile final resultData w = (r, w')"
    by (simp add: write_outputs_def)
  from writeFile_cases [OF wf] False show ?thesis by auto
next
  case True
  obtain r1 w1 where
    c: "writeFile cached (cache_payload isLocalImage resultData resultExpires) w = (r1, w1)"
    by (cases "writeFile cached (cache_payload isLocalImage resultData resultExpires) w")
  from writeFile_cases [OF c] have
    w1: "trace w1 =
           trace w @ [EvWriteFile cached (cache_payload isLocalImage resultData resultExpires)]"
      "denied w1 = denied w" "dirs w1 = dirs w" "logged w1 = logged w"
    by auto
  show ?thesis
  proof (cases r1)
    case (Inr u)
    with True c assms have wf: "writeFile final resultData w1 = (r, w')"
      by (simp add: write_outputs_def)
    from writeFile_cases [OF wf] w1 Inr c True show ?thesis by auto
  next
    case (Inl x)
    with True c assms have
      wf: "writeFile final resultData (w1\<lparr>logged := logged w1 @ [cache_warning x]\<rparr>) = (r, w')"
      by (simp add: write_outputs_def)
    from writeFile_cases [OF wf] w1 Inl c True show ?thesis by auto
  qed
qed

lemma writeFile_writable:
  "writable w p \<Longrightarrow>
   writeFile p b w =
     (Inr (), w\<lparr>trace := trace w @ [EvWriteFile p b], files := (files w)(p \<mapsto> b)\<rparr>)"
  by (simp add: writable_def writeFile_ok)





lemma write_outputs_final:
  assumes "write_outputs e isLocalImage cached final resultData resultExpires w = (r, w')"
    and "final \<notin> denied w \<and> final \<notin> dirs w \<and> butlast final \<in> dirs w"
  shows "r = Inr ()" "files w' final = Some resultData"
  using write_outputs_cases [OF assms(1)] assms(2) by blast+

lemma mkdir_ok_dirs:
  assumes "mkdir p w = (Inr (), w2)"
  shows "p \<in> dirs w2" "denied w2 = denied w" "files w2 = files w" "logged w2 = logged w"
    "now w2 = now w" "trace w2 = trace w @ [EvMkdir p]"
  using mkdir_cases [OF assms] by auto

lemma regenerate_success:
  assumes svc: "getConfiguredImageService rt = Inr service"
    and tr: "service (data originalImage) (options\<lparr>src := Url (originalImagePath options)\<rparr>)
               (imageConfig e) = Inr resultData"
    and m: "mkdir (butlast (finalFileURL e filepath)) w = (Inr (), w2)"
    and fin: "writable w2 (finalFileURL e filepath)"
  shows "\<exists>w'. regenerate rt e originalImage filepath options w
                 = (Inr (GenerationDataUncached (length (data originalImage) div 1024)
                           (length resultData div 1024)), w')
           \<and> files w' (finalFileURL e filepath) = Some resultData
           \<and> trace w' = trace w @ [EvMkdir (butlast (finalFileURL e filepath)),
                  EvTransform (data originalImage) (options\<lparr>src := Url (originalImagePath options)\<rparr>)]
                @ (if useCache e
                   then [EvWriteFile (cachedFileURL e filepath (isESMImportedImage (src options)))
                           (cache_payload (isESMImportedImage (src options)) resultData
                              (expires originalImage))]
                   else [])
                @ [EvWriteFile (finalFileURL e filepath) resultData]
           \<and> (useCache e \<and> writable w2 (cachedFileURL e filepath (isESMImportedImage (src options)))
                \<and> cachedFileURL e filepath (isESMImportedImage (src options)) \<noteq> finalFileURL e filepath
              \<longrightarrow> files w' (cachedFileURL e filepath (isESMImportedImage (src options)))
                    = Some (cache_payload (isESMImportedImage (src options)) resultData
                              (expires originalImage)))"
proof -
  let ?l = "isESMImportedImage (src options)"
  let ?w3 = "record_event (EvTransform (data originalImage)
                (options\<lparr>src := Url (originalImagePath options)\<rparr>)) w2"
  obtain r w' where
    wo: "write_outputs e ?l (cachedFileURL e filepath ?l) (finalFileURL e filepath) resultData
           (expires originalImage) ?w3 = (r, w')"
    by (cases "write_outputs e ?l (cachedFileURL e filepath ?l) (finalFileURL e filepath)
                 resultData (expires originalImage) ?w3")
  from fin have fin3: "finalFileURL e filepath \<notin> denied ?w3 \<and> finalFileURL e filepath \<notin> dirs ?w3
      \<and> butlast (finalFileURL e filepath) \<in> dirs ?w3"
    by (simp add: writable_def record_event_def)
  from write_outputs_final [OF wo fin3] have r: "r = Inr ()"
    and ff: "files w' (finalFileURL e filepath) = Some resultData" by auto
  from write_outputs_trace [OF wo] mkdir_ok_dirs(6) [OF m] have
    t: "trace w' = trace w @ [EvMkdir (butlast (finalFileURL e filepath)),
                  EvTransform (data originalImage) (options\<lparr>src := Url (originalImagePath options)\<rparr>)]
                @ (if useCache e
                   then [EvWriteFile (cachedFileURL e filepath ?l)
                           (cache_payload ?l resultData (expires originalImage))]
                   else [])
                @ [EvWriteFile (finalFileURL e filepath) resultData]"
    by (simp add: record_event_def)
  have c: "files w' (cachedFileURL e filepath ?l)
             = Some (cache_payload ?l resultData (expires originalImage))"
    if "useCache e" "writable w2 (cachedFileURL e filepath ?l)"
       "cachedFileURL e filepath ?l \<noteq> finalFileURL e filepath"
    using that wo fin
    by (auto simp: write_outputs_def writeFile_writable writable_def record_event_def
        writeFile_def put_file_def split: if_splits)
  from svc tr m wo r have "regenerate rt e originalImage filepath options w
      = (Inr (GenerationDataUncached (length (data originalImage) div 1024)
                (length resultData div 1024)), w')"
    by (simp add: regenerate_def Let_def)
  with ff t c show ?thesis by blast
qed


lemma not_prefix_butlast: "p \<noteq> [] \<Longrightarrow> p \<notin> set (prefixes (butlast p))"
proof
  assume "p \<noteq> []" and "p \<in> set (prefixes (butlast p))"
  then have "prefix p (butlast p)" by simp
  then have "length p \<le> length (butlast p)" by (rule prefix_length_le)
  then have "length p \<le> length p - 1" by (simp only: length_butlast)
  moreover from \<open>p \<noteq> []\<close> have "0 < length p" by simp
  ultimately show False by arith
qed

lemma writable_after_mkdir:
  assumes "mkdir (butlast p) w = (Inr (), w2)" and "p \<notin> denied w" and "p \<notin> dirs w" and "p \<noteq> []"
  shows "writable w2 p"
  using mkdir_cases [OF assms(1)] assms(2-) not_prefix_butlast [of p]
  by (auto simp: writable_def)

lemma regenerate_success_eval:
  assumes svc: "getConfiguredImageService rt = Inr service"
    and tr: "service (data originalImage) (options\<lparr>src := Url (originalImagePath options)\<rparr>)
               (imageConfig e) = Inr resultData"
    and m: "fst (mkdir (butlast (finalFileURL e filepath)) w) = Inr ()"
    and fin: "finalFileURL e filepath \<notin> denied w" "finalFileURL e filepath \<notin> dirs w"
      "finalFileURL e filepath \<noteq> []"
  shows "fst (regenerate rt e originalImage filepath options w)
           = Inr (GenerationDataUncached (length (data originalImage) div 1024)
                    (length resultData div 1024))"
    and "files (snd (regenerate rt e originalImage filepath options w)) (finalFileURL e filepath)
           = Some resultData"
    and "trace (snd (regenerate rt e originalImage filepath options w))
           = trace w @ [EvMkdir (butlast (finalFileURL e filepath)),
                  EvTransform (data originalImage) (options\<lparr>src := Url (originalImagePath options)\<rparr>)]
                @ (if useCache e
                   then [EvWriteFile (cachedFileURL e filepath (isESMImportedImage (src options)))
                           (cache_payload (isESMImportedImage (src options)) resultData
                              (expires originalImage))]
                   else [])
                @ [EvWriteFile (finalFileURL e filepath) resultData]"
proof -
  obtain w2 where m2: "mkdir (butlast (finalFileURL e filepath)) w = (Inr (), w2)"
    using m by (cases "mkdir (butlast (finalFileURL e filepath)) w") auto
  from regenerate_success [OF svc tr m2 writable_after_mkdir [OF m2 fin]]
  obtain w' where
    r: "regenerate rt e originalImage filepath options w
          = (Inr (GenerationDataUncached (length (data originalImage) div 1024)
                    (length resultData div 1024)), w')"
    and f: "files w' (finalFileURL e filepath) = Some resultData"
    and t: "trace w' = trace w @ [EvMkdir (butlast (finalFileURL e filepath)),
                  EvTransform (data originalImage) (options\<lparr>src := Url (originalImagePath options)\<rparr>)]
                @ (if useCache e
                   then [EvWriteFile (cachedFileURL e filepath (isESMImportedImage (src options)))
                           (cache_payload (isESMImportedImage (src options)) resultData
                              (expires originalImage))]
                   else [])
                @ [EvWriteFile (finalFileURL e filepath) resultData]"
    by blast
  from r show "fst (regenerate rt e originalImage filepath options w)
           = Inr (GenerationDataUncached (length (data originalImage) div 1024)
                    (length resultData div 1024))" by simp
  from r f show "files (snd (regenerate rt e originalImage filepath options w))
      (finalFileURL e filepath) = Some resultData" by simp
  from r t show "trace (snd (regenerate rt e originalImage filepath options w))
           = trace w @ [EvMkdir (butlast (finalFileURL e filepath)),
                  EvTransform (data originalImage) (options\<lparr>src := Url (originalImagePath options)\<rparr>)]
                @ (if useCache e
                   then [EvWriteFile (cachedFileURL e filepath (isESMImportedImage (src options)))
                           (cache_payload (isESMImportedImage (src options)) resultData
                              (expires originalImage))]
                   else [])
                @ [EvWriteFile (finalFileURL e filepath) resultData]" by simp
qed

lemma local_entry_reused:
  assumes "isESMImportedImage (src options)"
    and "get_file (cachedFileURL e filepath True) w = Inr b"
    and "writable w (finalFileURL e filepath)"
  shows "generateImageInternal rt e originalImage filepath options w
           = (Inr GenerationDataCached,
              w\<lparr>trace := trace w @ [EvCopyFile (cachedFileURL e filepath True) (finalFileURL e filepath)],
                files := (files w)(finalFileURL e filepath \<mapsto> b)\<rparr>)"
  using assms
  by (simp add: generateImageInternal_def check_cache_def cache_try_def copyFile_def
      put_file_def record_event_def get_file_def writable_def split: if_splits option.splits)

lemma local_entry_absent:
  assumes "isESMImportedImage (src options)"
    and "get_file (cachedFileURL e filepath True) w
           = Inl (FsError ENOENT (cachedFileURL e filepath True))"
  shows "generateImageInternal rt e originalImage filepath options w
           = regenerate rt e originalImage filepath options
               (record_event (EvCopyFile (cachedFileURL e filepath True) (finalFileURL e filepath)) w)"
  using assms
  by (simp add: generateImageInternal_def check_cache_def cache_try_def copyFile_def
      record_event_def get_file_def err_code_def split: if_splits option.splits)

section \<open>The example build, evaluated\<close>

lemma ex_world_fields:
  "files ex_world = Map.empty"
  "dirs ex_world = {[], [''cache''], [''cache'', ''assets''], [''dist''], [''dist'', ''_astro'']}"
  "denied ex_world = {}" "now ex_world = 50" "logged ex_world = []" "trace ex_world = []"
  by (simp_all add: ex_world_def)

lemma ex_env_fields:
  "useCache ex_env = True" "imageConfig ex_env = []"
  "assetsCacheDir ex_env = [''cache'', ''assets'']" "clientRoot ex_env = [''dist'']"
  "serverRoot ex_env = [''dist'']" "assetsFolder ex_env = ''_astro''"
  by (simp_all add: ex_env_def)

lemma ex_runtime_fields:
  "getConfiguredImageService ex_runtime = Inr (\<lambda>b opts cfg. Inr (rev b))"
  "coerce_number ex_runtime = (\<lambda>j. None)"
  "coerce_buffer ex_runtime = (\<lambda>j. Inl TypeError)"
  "loadRemoteImage ex_runtime = (\<lambda>p. Inr \<lparr>data = [1, 2, 3], expires = 100\<rparr>)"
  "isRemotePath ex_runtime = (\<lambda>p. take 4 p = ''http'')"
  by (simp_all add: ex_runtime_def)

lemma ex_image_fields: "data ex_image = [1, 2, 3]" "expires ex_image = 100"
  by (simp_all add: ex_image_def)

lemma isESMImportedImage_simps:
  "isESMImportedImage (Url u) = False" "isESMImportedImage (Imported m) = True"
  by (simp_all add: isESMImportedImage_def)

lemma ex_remote_options_fields:
  "src ex_remote_options = Url ''http://x/a.png''"
  "settings ex_remote_options = ''w=100''"
  by (simp_all add: ex_remote_options_def)

lemma ex_local_options_fields:
  "src ex_local_options = Imported \<lparr>metadata_src = ''/_astro/a.png'', metadata_format = ''png''\<rparr>"
  "settings ex_local_options = ''w=100''"
  by (simp_all add: ex_local_options_def)

lemma ex_final: "finalFileURL ex_env ''/_astro/a.webp'' = [''dist'', ''_astro'', ''a.webp'']"
  by (simp add: finalFileURL_def ex_env_fields segments_def)

lemma ex_basename: "basename ''/_astro/a.webp'' = ''a.webp''"
  by (simp add: basename_def segments_def)

lemma ex_cached_remote:
  "cachedFileURL ex_env ''/_astro/a.webp'' False = [''cache'', ''assets'', ''a.webp.json'']"
  by (simp add: cachedFileURL_def ex_basename resolve_name_def ex_env_fields)

lemma ex_cached_local:
  "cachedFileURL ex_env ''/_astro/a.webp'' True = [''cache'', ''assets'', ''a.webp'']"
  by (simp add: cachedFileURL_def ex_basename resolve_name_def ex_env_fields)

lemma ex_remote_miss:
  "check_cache rt False [''cache'', ''assets'', ''a.webp.json''] [''dist'', ''_astro'', ''a.webp''] ex_world
     = (Inr False, ex_world)"
  by (simp add: check_cache_def cache_try_def readFile_def get_file_def ex_world_fields err_code_def)

lemma ex_remote_job_regenerates:
  "generateImageInternal rt ex_env img ''/_astro/a.webp'' ex_remote_options ex_world
     = regenerate rt ex_env img ''/_astro/a.webp'' ex_remote_options ex_world"
  by (simp add: generateImageInternal_def ex_remote_options_fields isESMImportedImage_simps Let_def
      ex_cached_remote ex_final ex_remote_miss)

lemma ex_generated:
  "fst (generateImageInternal ex_runtime ex_env ex_image ''/_astro/a.webp'' ex_remote_options
          ex_world) = Inr (GenerationDataUncached 0 0)"
  by (simp add: ex_remote_job_regenerates regenerate_def ex_remote_options_fields isESMImportedImage_simps Let_def
      ex_cached_remote ex_final mkdir_def Let_def ex_runtime_fields
      write_outputs_def writeFile_def put_file_def record_event_def ex_world_fields ex_env_fields
      ex_image_fields split_def)








lemma ex_mkdir_output:
  assumes "denied w = {}" and "files w [] = None" and "files w [''dist''] = None"
    and "files w [''dist'', ''_astro''] = None"
  shows "fst (mkdir (butlast [''dist'', ''_astro'', ''a.webp'']) w) = Inr ()"
  using assms by (simp add: mkdir_def Let_def)

lemma ex_regenerate_any:
  assumes e: "finalFileURL e ''/_astro/a.webp'' = [''dist'', ''_astro'', ''a.webp'']"
    and w: "denied w = {}" "files w [] = None" "files w [''dist''] = None"
      "files w [''dist'', ''_astro''] = None" "[''dist'', ''_astro'', ''a.webp''] \<notin> dirs w"
  shows "fst (regenerate ex_runtime e ex_image ''/_astro/a.webp'' opts w)
           = Inr (GenerationDataUncached 0 0)"
    and "files (snd (regenerate ex_runtime e ex_image ''/_astro/a.webp'' opts w))
           [''dist'', ''_astro'', ''a.webp''] = Some [3, 2, 1]"
    and "trace (snd (regenerate ex_runtime e ex_image ''/_astro/a.webp'' opts w))
           = trace w @ [EvMkdir [''dist'', ''_astro''],
                  EvTransform [1, 2, 3] (opts\<lparr>src := Url (originalImagePath opts)\<rparr>)]
                @ (if useCache e
                   then [EvWriteFile (cachedFileURL e ''/_astro/a.webp'' (isESMImportedImage (src opts)))
                           (cache_payload (isESMImportedImage (src opts)) [3, 2, 1] 100)]
                   else [])
                @ [EvWriteFile [''dist'', ''_astro'', ''a.webp''] [3, 2, 1]]"
proof -
  have s: "(\<lambda>b opts cfg. Inr (rev b)) (data ex_image)
             (opts\<lparr>src := Url (originalImagePath opts)\<rparr>) (imageConfig e) = Inr [3, 2, 1]"
    by (simp add: ex_image_fields)
  have m: "fst (mkdir (butlast (finalFileURL e ''/_astro/a.webp'')) w) = Inr ()"
    unfolding e using w by (intro ex_mkdir_output) simp_all
  have fin: "finalFileURL e ''/_astro/a.webp'' \<notin> denied w"
    "finalFileURL e ''/_astro/a.webp'' \<notin> dirs w" "finalFileURL e ''/_astro/a.webp'' \<noteq> []"
    unfolding e using w by simp_all
  note r = regenerate_success_eval [OF ex_runtime_fields(1) s m fin]
  from r(1) show "fst (regenerate ex_runtime e ex_image ''/_astro/a.webp'' opts w)
           = Inr (GenerationDataUncached 0 0)"
    by (simp add: ex_image_fields)
  from r(2) show "files (snd (regenerate ex_runtime e ex_image ''/_astro/a.webp'' opts w))
           [''dist'', ''_astro'', ''a.webp''] = Some [3, 2, 1]"
    by (simp add: e)
  from r(3) show "trace (snd (regenerate ex_runtime e ex_image ''/_astro/a.webp'' opts w))
           = trace w @ [EvMkdir [''dist'', ''_astro''],
                  EvTransform [1, 2, 3] (opts\<lparr>src := Url (originalImagePath opts)\<rparr>)]
                @ (if useCache e
                   then [EvWriteFile (cachedFileURL e ''/_astro/a.webp'' (isESMImportedImage (src opts)))
                           (cache_payload (isESMImportedImage (src opts)) [3, 2, 1] 100)]
                   else [])
                @ [EvWriteFile [''dist'', ''_astro'', ''a.webp''] [3, 2, 1]]"
    by (simp add: e ex_image_fields)
qed



section \<open>Preparing the environment when the cache directory cannot be made\<close>

text \<open>
  Claim C6. \<^verbatim>\<open>prepareAssetsGeneration\<close> always returns an environment, never an
  error. Its \<^verbatim>\<open>useCache\<close> is true exactly when creating the cache directory
  succeeded. When the creation throws \<open>x\<close>, \<^verbatim>\<open>useCache\<close> is false and the one new
  line of the log is the warning with \<open>x\<close>; when it succeeds nothing is logged.
\<close>

theorem prepare_survives_mkdir_failure:
  "\<exists>e w'. prepareAssetsGeneration config w = (Inr e, w') \<and>
     (useCache e \<longleftrightarrow> fst (mkdir (cacheDir config @ [''assets'']) w) = Inr ()) \<and>
     (\<forall>x. fst (mkdir (cacheDir config @ [''assets'']) w) = Inl x \<longrightarrow>
          \<not> useCache e \<and> logged w' = logged w @ [cache_warning x]) \<and>
     (fst (mkdir (cacheDir config @ [''assets'']) w) = Inr () \<longrightarrow> logged w' = logged w)"
proof (cases "mkdir (cacheDir config @ [''assets'']) w")
  case (Pair r w1)
  from mkdir_cases [OF Pair] have l: "logged w1 = logged w" by simp
  show ?thesis
  proof (cases r)
    case (Inl x)
    with Pair l show ?thesis
      by (simp add: prepareAssetsGeneration_def Let_def split_def)
  next
    case (Inr u)
    with Pair l show ?thesis
      by (simp add: prepareAssetsGeneration_def Let_def split_def)
  qed
qed

text \<open>
  The cache directory \<^verbatim>\<open>/cache/assets\<close> is denied: the environment comes back with
  caching off and the warning is in the log.
\<close>

theorem prepare_survives_mkdir_failure_witness:
  "\<exists>e w'. prepareAssetsGeneration ex_config (ex_world\<lparr>denied := {[''cache'', ''assets'']}\<rparr>)
            = (Inr e, w')
      \<and> \<not> useCache e
      \<and> logged w' = [cache_warning (FsError EACCES [''cache'', ''assets''])]"
proof -
  have f: "fst (mkdir (cacheDir ex_config @ [''assets''])
                  (ex_world\<lparr>denied := {[''cache'', ''assets'']}\<rparr>))
             = Inl (FsError EACCES [''cache'', ''assets''])"
    by (simp add: mkdir_def ex_config_def ex_world_def Let_def)
  from prepare_survives_mkdir_failure
         [of ex_config "ex_world\<lparr>denied := {[''cache'', ''assets'']}\<rparr>"] f
  show ?thesis by (auto simp: ex_world_def)
qed

section \<open>The final file is written whatever happens to the cache entry\<close>

text \<open>
  Claim C1. The region of lines 162 to 185 is entered with the transformed bytes. In
  every run of it the last call is the write of these bytes to the final file. When
  caching is on and the write of the cache entry throws \<open>x\<close>, the log gains the warning
  with \<open>x\<close> and nothing else, and the error is not thrown further: when the final
  location can be written (it is not denied, not a directory, and its folder exists), the
  region ends without an error and the final file holds the transformed bytes.
\<close>

theorem final_write_on_every_path:
  assumes "write_outputs e isLocalImage cached final resultData resultExpires w = (r, w')"
  shows "(\<exists>evs. trace w' = trace w @ evs @ [EvWriteFile final resultData])
       \<and> (\<forall>x. useCache e \<and>
               fst (writeFile cached (cache_payload isLocalImage resultData resultExpires) w)
                 = Inl x
               \<longrightarrow> logged w' = logged w @ [cache_warning x])
       \<and> (final \<notin> denied w \<and> final \<notin> dirs w \<and> butlast final \<in> dirs w
            \<longrightarrow> r = Inr () \<and> files w' final = Some resultData)"
  using assms by (rule write_outputs_cases)

text \<open>
  The cache file of a remote image is denied: the warning is logged, the region ends
  without an error and the final file holds the bytes.
\<close>

theorem final_write_on_every_path_witness:
  "\<exists>w'. write_outputs ex_env False [''cache'', ''assets'', ''a.webp.json'']
            [''dist'', ''_astro'', ''a.webp''] [3, 2, 1] 100
            (ex_world\<lparr>denied := {[''cache'', ''assets'', ''a.webp.json'']}\<rparr>) = (Inr (), w')
     \<and> logged w' = [cache_warning (FsError EACCES [''cache'', ''assets'', ''a.webp.json''])]
     \<and> files w' [''dist'', ''_astro'', ''a.webp''] = Some [3, 2, 1]"
proof -
  let ?w = "ex_world\<lparr>denied := {[''cache'', ''assets'', ''a.webp.json'']}\<rparr>"
  obtain r w' where
    eq: "write_outputs ex_env False [''cache'', ''assets'', ''a.webp.json'']
            [''dist'', ''_astro'', ''a.webp''] [3, 2, 1] 100 ?w = (r, w')"
    by (cases "write_outputs ex_env False [''cache'', ''assets'', ''a.webp.json'']
            [''dist'', ''_astro'', ''a.webp''] [3, 2, 1] 100 ?w")
  have u: "useCache ex_env" by (simp add: ex_env_def)
  have f: "fst (writeFile [''cache'', ''assets'', ''a.webp.json'']
                  (cache_payload False [3, 2, 1] 100) ?w)
             = Inl (FsError EACCES [''cache'', ''assets'', ''a.webp.json''])"
    by (simp add: writeFile_def put_file_def record_event_def ex_world_def)
  have d: "[''dist'', ''_astro'', ''a.webp''] \<notin> denied ?w
            \<and> [''dist'', ''_astro'', ''a.webp''] \<notin> dirs ?w
            \<and> butlast [''dist'', ''_astro'', ''a.webp''] \<in> dirs ?w"
    by (simp add: ex_world_def)
  have l: "logged ?w = []" by (simp add: ex_world_def)
  from final_write_on_every_path [OF eq] u f d l eq show ?thesis by auto
qed

section \<open>A failing image service leaves the files as they were\<close>

text \<open>
  Claim C7. The cache check found nothing to reuse (it ended without returning and
  without an error) and the \<^verbatim>\<open>transform\<close> of the image service throws \<open>x\<close>.
  Then the job ends with an error, which is \<open>x\<close> when the folder of the final file could
  be made; no file has changed, so neither a cache entry nor a final file was written; and
  after the cache check the job made no call that writes a file.
\<close>

theorem transform_failure_writes_nothing:
  assumes miss: "check_cache rt (isESMImportedImage (src options))
                   (cachedFileURL e filepath (isESMImportedImage (src options)))
                   (finalFileURL e filepath) w = (Inr False, w1)"
    and svc: "getConfiguredImageService rt = Inr service"
    and fail: "service (data originalImage) (options\<lparr>src := Url (originalImagePath options)\<rparr>)
                 (imageConfig e) = Inl x"
  shows "\<exists>x' w'. generateImageInternal rt e originalImage filepath options w = (Inl x', w')
           \<and> (fst (mkdir (butlast (finalFileURL e filepath)) w1) = Inr () \<longrightarrow> x' = x)
           \<and> files w' = files w
           \<and> (\<exists>evs. trace w' = trace w1 @ evs \<and> (\<forall>p b. EvWriteFile p b \<notin> set evs))"
proof -
  obtain r w' where reg: "regenerate rt e originalImage filepath options w1 = (r, w')"
    by (cases "regenerate rt e originalImage filepath options w1")
  from check_cache_cases [OF miss] have f: "files w1 = files w" by simp
  from miss reg have g: "generateImageInternal rt e originalImage filepath options w = (r, w')"
    by (simp add: generateImageInternal_def Let_def)
  from regenerate_transform_fails [OF svc fail reg] f g show ?thesis by auto
qed

text \<open>
  The image service rejects the image of a remote job with an empty cache: the job ends
  with the error of the service and there is still no file.
\<close>

theorem transform_failure_writes_nothing_witness:
  "\<exists>w'. generateImageInternal ex_failing_runtime ex_env ex_image ''/_astro/a.webp''
            ex_remote_options ex_world = (Inl (Error ''unsupported''), w')
       \<and> files w' = Map.empty"
proof -
  have miss: "check_cache ex_failing_runtime (isESMImportedImage (src ex_remote_options))
                (cachedFileURL ex_env ''/_astro/a.webp'' (isESMImportedImage (src ex_remote_options)))
                (finalFileURL ex_env ''/_astro/a.webp'') ex_world = (Inr False, ex_world)"
    by (simp add: ex_remote_options_fields isESMImportedImage_simps Let_def ex_cached_remote ex_final ex_remote_miss)
  have svc: "getConfiguredImageService ex_failing_runtime
               = Inr (\<lambda>b opts cfg. Inl (Error ''unsupported''))"
    by (simp add: ex_failing_runtime_def)
  have m: "fst (mkdir (butlast (finalFileURL ex_env ''/_astro/a.webp'')) ex_world) = Inr ()"
    by (simp add: ex_final mkdir_def ex_world_fields Let_def)
  have fail: "(\<lambda>b opts cfg. Inl (Error ''unsupported'')) (data ex_image)
                 (ex_remote_options\<lparr>src := Url (originalImagePath ex_remote_options)\<rparr>)
                 (imageConfig ex_env) = Inl (Error ''unsupported'')"
    by simp
  from transform_failure_writes_nothing [where originalImage = ex_image, OF miss svc fail] m
  show ?thesis by (auto simp: ex_world_fields)
qed

section \<open>The sizes a generated result carries\<close>

text \<open>
  Claim C9, as stated, fails: the two numbers of a generated result are not the sizes in
  bytes. The job below loads three bytes and writes three bytes, and reports 0 and 0.
\<close>

theorem sizes_are_not_bytes_counterexample:
  "fst (generateImageInternal ex_runtime ex_env ex_image ''/_astro/a.webp'' ex_remote_options
          ex_world) = Inr (GenerationDataUncached 0 0)
   \<and> length (data ex_image) = 3"
  by (simp add: ex_generated ex_image_fields)

text \<open>
  Claim C9, amended. A job that ends without an error either found a cache entry to reuse
  and returns \<^verbatim>\<open>{ cached: true }\<close>, which carries no size, or found none and
  returns \<^verbatim>\<open>{ cached: false }\<close> with two sizes in kilobytes: the number of bytes
  of the loaded source and the number of bytes the image service returned, each divided
  by 1024 and truncated.
\<close>

theorem sizes_in_kilobytes:
  assumes "generateImageInternal rt e originalImage filepath options w = (Inr g, w')"
  shows "(g = GenerationDataCached \<and>
            fst (check_cache rt (isESMImportedImage (src options))
                   (cachedFileURL e filepath (isESMImportedImage (src options)))
                   (finalFileURL e filepath) w) = Inr True)
       \<or> (fst (check_cache rt (isESMImportedImage (src options))
                   (cachedFileURL e filepath (isESMImportedImage (src options)))
                   (finalFileURL e filepath) w) = Inr False
          \<and> (\<exists>service resultData.
                getConfiguredImageService rt = Inr service
              \<and> service (data originalImage) (options\<lparr>src := Url (originalImagePath options)\<rparr>)
                     (imageConfig e) = Inr resultData
              \<and> g = GenerationDataUncached (length (data originalImage) div 1024)
                                             (length resultData div 1024)))"
  using assms
  by (auto simp: generateImageInternal_def regenerate_def Let_def
      split: prod.splits sum.splits bool.splits if_splits)

text \<open>The job of the counterexample: both sizes are 3 div 1024.\<close>

theorem sizes_in_kilobytes_witness:
  "\<exists>service resultData.
       getConfiguredImageService ex_runtime = Inr service
     \<and> service (data ex_image) (ex_remote_options\<lparr>src := Url (originalImagePath ex_remote_options)\<rparr>)
            (imageConfig ex_env) = Inr resultData
     \<and> GenerationDataUncached 0 0
         = GenerationDataUncached (length (data ex_image) div 1024) (length resultData div 1024)"
proof -
  obtain w' where
    g: "generateImageInternal ex_runtime ex_env ex_image ''/_astro/a.webp'' ex_remote_options
          ex_world = (Inr (GenerationDataUncached 0 0), w')"
    using ex_generated
    by (cases "generateImageInternal ex_runtime ex_env ex_image ''/_astro/a.webp''
                 ex_remote_options ex_world") auto
  from sizes_in_kilobytes [OF g] show ?thesis by auto
qed

section \<open>The cache is read whether or not caching is enabled\<close>



section \<open>One load for all the transforms of a source\<close>



section \<open>A cache file that cannot be read or is not JSON\<close>




section \<open>A remote entry is reused until it expires\<close>




section \<open>A local entry and the folder of the final file\<close>

text \<open>
  Claim C4. When the cache holds an entry for a local image and the final location can
  be written, the job copies the entry there and returns \<^verbatim>\<open>{ cached: true }\<close>
  (\<open>local_entry_reused\<close>); when the cache file is absent it regenerates
  (\<open>local_entry_absent\<close>). But presence alone does not decide: the folder of the final
  file is only made after the cache check (line 141), and \<^verbatim>\<open>copyFile\<close> into a
  folder that does not exist throws with the code \<^verbatim>\<open>ENOENT\<close>, which the
  \<^verbatim>\<open>catch\<close> takes for an absent cache file. Below, the cache file of the local
  image exists and the folder \<^verbatim>\<open>/dist/_astro\<close> does not: the job calls the image
  service and reports a generated image.
\<close>

theorem local_entry_missed_without_output_folder:
  "get_file [''cache'', ''assets'', ''a.webp''] ex_world_no_output_dir = Inr [9, 9]
   \<and> fst (generateImageInternal ex_runtime ex_env ex_image ''/_astro/a.webp'' ex_local_options
           ex_world_no_output_dir) = Inr (GenerationDataUncached 0 0)
   \<and> trace (snd (generateImageInternal ex_runtime ex_env ex_image ''/_astro/a.webp''
           ex_local_options ex_world_no_output_dir))
       = [EvCopyFile [''cache'', ''assets'', ''a.webp''] [''dist'', ''_astro'', ''a.webp''],
          EvMkdir [''dist'', ''_astro''],
          EvTransform [1, 2, 3] (ex_local_options\<lparr>src := Url ''/_astro/a.png''\<rparr>),
          EvWriteFile [''cache'', ''assets'', ''a.webp''] [3, 2, 1],
          EvWriteFile [''dist'', ''_astro'', ''a.webp''] [3, 2, 1]]"
proof -
  let ?w = "record_event (EvCopyFile [''cache'', ''assets'', ''a.webp'']
                            [''dist'', ''_astro'', ''a.webp'']) ex_world_no_output_dir"
  have f: "get_file [''cache'', ''assets'', ''a.webp''] ex_world_no_output_dir = Inr [9, 9]"
    by (simp add: get_file_def ex_world_no_output_dir_def ex_world_local_cached_def
        ex_world_fields)
  have c: "check_cache ex_runtime True [''cache'', ''assets'', ''a.webp'']
             [''dist'', ''_astro'', ''a.webp''] ex_world_no_output_dir = (Inr False, ?w)"
    by (simp add: check_cache_def cache_try_def copyFile_def f put_file_def record_event_def
        get_file_def ex_world_no_output_dir_def ex_world_local_cached_def ex_world_fields
        err_code_def)
  have g: "generateImageInternal ex_runtime ex_env ex_image ''/_astro/a.webp'' ex_local_options
             ex_world_no_output_dir
           = regenerate ex_runtime ex_env ex_image ''/_astro/a.webp'' ex_local_options ?w"
    by (simp add: generateImageInternal_def ex_local_options_fields isESMImportedImage_simps
        ex_cached_local ex_final c)
  have w: "denied ?w = {}" "files ?w [] = None" "files ?w [''dist''] = None"
    "files ?w [''dist'', ''_astro''] = None" "[''dist'', ''_astro'', ''a.webp''] \<notin> dirs ?w"
    "trace ?w = [EvCopyFile [''cache'', ''assets'', ''a.webp''] [''dist'', ''_astro'', ''a.webp'']]"
    by (simp_all add: record_event_def ex_world_no_output_dir_def ex_world_local_cached_def
        ex_world_fields)
  from ex_regenerate_any(1,3) [OF ex_final w(1-5), of ex_local_options] f w(6) show ?thesis
    by (simp add: g ex_env_fields ex_local_options_fields isESMImportedImage_simps
        ex_cached_local cache_payload_def originalImagePath_def)
qed

section \<open>A remote entry gives back the bytes it was made of\<close>



end
